theory Spec2Isabelle
  imports Main
begin

section \<open>Configuration (store.ts)\<close>

text \<open>
  Instants are milliseconds since the epoch, as \<open>Date.now()\<close> returns them, and
  durations configured in minutes are multiplied by \<open>60_000\<close> where the source does so.
  JavaScript numbers are modelled as \<open>int\<close>: every clock reading is passed in as an
  argument instead of being read from the platform.
\<close>

record google_tokens =
  access_token :: string
  refresh_token :: string
  expiry_date :: int

record outlook_tokens =
  accessToken :: string
  refreshToken :: string
  expiresOn :: int

record app_settings =
  stretchIntervalMinutes :: int
  preMeetingBufferMinutes :: int
  snoozeDurationMinutes :: int
  calendarProviders_google :: bool
  calendarProviders_outlook :: bool
  blockOnTentative :: bool
  googleClientId :: string
  outlookClientId :: string
  outlookTenantId :: string
  googleTokens :: "google_tokens option"
  outlookTokens :: "outlook_tokens option"

text \<open>The \<open>defaults\<close> object of store.ts.\<close>

definition defaults :: app_settings where
  "defaults =
     \<lparr> stretchIntervalMinutes = 30,
       preMeetingBufferMinutes = 15,
       snoozeDurationMinutes = 5,
       calendarProviders_google = False,
       calendarProviders_outlook = False,
       blockOnTentative = True,
       googleClientId = [],
       outlookClientId = ''7f6d8ba2-c83e-498f-86b6-77eb0375e03f'',
       outlookTenantId = ''consumers'',
       googleTokens = None,
       outlookTokens = None \<rparr>"

text \<open>JavaScript truthiness of a string: only the empty string is falsy.\<close>

definition truthy :: "string \<Rightarrow> bool" where
  "truthy s = (s \<noteq> [])"

section \<open>StretchTimer\<close>

text \<open>
  The fields of the class. \<open>intervalHandle\<close> records whether a periodic timer is
  installed (the handle itself is opaque).
\<close>

record stretch_timer =
  intervalHandle :: bool
  lastStretchTime :: int
  paused :: bool
  snoozedUntil :: int

datatype signal = Tick | Stretch_due

definition start :: "int \<Rightarrow> stretch_timer \<Rightarrow> stretch_timer" where
  "start now t = t\<lparr>lastStretchTime := now, paused := False, intervalHandle := True\<rparr>"

definition stop :: "stretch_timer \<Rightarrow> stretch_timer" where
  "stop t = (if intervalHandle t then t\<lparr>intervalHandle := False\<rparr> else t)"

definition pause :: "stretch_timer \<Rightarrow> stretch_timer" where
  "pause t = t\<lparr>paused := True\<rparr>"

definition resume :: "int \<Rightarrow> stretch_timer \<Rightarrow> stretch_timer" where
  "resume now t = t\<lparr>paused := False, lastStretchTime := now\<rparr>"

definition isPaused :: "stretch_timer \<Rightarrow> bool" where
  "isPaused t = paused t"

definition snooze :: "int \<Rightarrow> app_settings \<Rightarrow> stretch_timer \<Rightarrow> stretch_timer" where
  "snooze now s t = t\<lparr>snoozedUntil := now + snoozeDurationMinutes s * 60000\<rparr>"

definition resetTimer :: "int \<Rightarrow> stretch_timer \<Rightarrow> stretch_timer" where
  "resetTimer now t = t\<lparr>lastStretchTime := now, snoozedUntil := 0\<rparr>"

definition getRemainingMs :: "int \<Rightarrow> app_settings \<Rightarrow> stretch_timer \<Rightarrow> int" where
  "getRemainingMs now s t =
     (if paused t then - 1
      else if now < snoozedUntil t then snoozedUntil t - now
      else
        let remaining = stretchIntervalMinutes s * 60000 - (now - lastStretchTime t)
        in max 0 remaining)"

text \<open>
  One periodic check. It changes no field; its effect is the list of signals it emits,
  in order.
\<close>

definition tick :: "int \<Rightarrow> app_settings \<Rightarrow> stretch_timer \<Rightarrow> signal list" where
  "tick now s t =
     Tick #
     (if paused t then []
      else if now < snoozedUntil t then []
      else
        let elapsed = now - lastStretchTime t
        in if elapsed \<ge> stretchIntervalMinutes s * 60000 then [Stretch_due] else [])"

section \<open>Calendar events and HTTP results\<close>

text \<open>
  The time value of a JavaScript \<open>Date\<close>: \<open>None\<close> is an Invalid Date (time value
  NaN). The relational operators compare time values, and every comparison with NaN is
  false.
\<close>

type_synonym date = "int option"

definition date_le :: "date \<Rightarrow> date \<Rightarrow> bool" where
  "date_le a b = (case (a, b) of (Some x, Some y) \<Rightarrow> x \<le> y | _ \<Rightarrow> False)"

definition date_gt :: "date \<Rightarrow> date \<Rightarrow> bool" where
  "date_gt a b = (case (a, b) of (Some x, Some y) \<Rightarrow> x > y | _ \<Rightarrow> False)"

record calendar_event =
  summary :: string
  ev_start :: date
  ev_end :: date
  status :: string

text \<open>
  What an awaited \<open>fetch\<close> gives: the call throws (no connection, or a body that does
  not parse), the response is not \<open>ok\<close>, or the response is \<open>ok\<close> with its JSON body.
\<close>

datatype 'a response = Threw | Not_ok | Ok_json 'a

text \<open>The JSON body of a token endpoint; \<open>refresh_token\<close> may be absent.\<close>

record token_json =
  resp_access_token :: string
  resp_refresh_token :: "string option"
  resp_expires_in :: int

datatype error = Fetch_threw | Token_exchange_failed | Client_id_not_configured | Type_error

datatype provider = Google | Outlook

text \<open>
  The requests sent and the cycles run, in order: a ghost log that makes "a refresh was
  attempted" and "a fetch cycle ran" observable.
\<close>

datatype effect =
    Fetch_cycle
  | Refresh_call provider
  | Token_request provider
  | Events_request provider string int int

text \<open>\<open>a || b\<close> on a possibly absent string: absent and empty are both falsy.\<close>

definition str_or :: "string option \<Rightarrow> string \<Rightarrow> string" where
  "str_or a b = (case a of None \<Rightarrow> b | Some s \<Rightarrow> if truthy s then s else b)"

section \<open>The provider clients and the calendar manager\<close>

record google_client =
  g_accessToken :: string
  g_refreshToken :: string
  g_expiryDate :: int

record outlook_client =
  o_accessToken :: string
  o_refreshToken :: string
  o_expiresOn :: int

record cached_events =
  events :: "calendar_event list"
  fetchedAt :: int

text \<open>
  The mutable state the calendar code works on: the persisted settings of store.ts,
  the in-memory fields of the two clients, the cache of the manager, and the ghost log.
\<close>

record world =
  store :: app_settings
  googleClient :: google_client
  outlookClient :: outlook_client
  cache :: cached_events
  trace :: "effect list"

definition emit :: "effect \<Rightarrow> world \<Rightarrow> world" where
  "emit e w = w\<lparr>trace := trace w @ [e]\<rparr>"

text \<open>
  What the environment supplies to one \<open>getUpcomingEvents\<close> call: the clock readings, in
  the order the code takes them, the answers of the two endpoints, and the platform's
  date parser.
\<close>

record 'raw provider_env =
  now_check :: int
  token_resp :: "token_json response"
  now_refresh :: int
  now_window :: int
  events_resp :: "'raw list option response"
  parse_date :: "string \<Rightarrow> date"

subsection \<open>GoogleCalendarClient\<close>

definition google_construct :: "app_settings \<Rightarrow> google_client" where
  "google_construct s =
     (case googleTokens s of
        None \<Rightarrow> \<lparr>g_accessToken = [], g_refreshToken = [], g_expiryDate = 0\<rparr>
      | Some tokens \<Rightarrow>
          \<lparr>g_accessToken = access_token tokens, g_refreshToken = refresh_token tokens,
           g_expiryDate = expiry_date tokens\<rparr>)"

definition google_isConnected :: "app_settings \<Rightarrow> bool" where
  "google_isConnected s =
     (case googleTokens s of None \<Rightarrow> False | Some tokens \<Rightarrow> truthy (refresh_token tokens))"

definition google_persist :: "world \<Rightarrow> world" where
  "google_persist w =
     w\<lparr>store := (store w)\<lparr>googleTokens :=
       Some \<lparr>access_token = g_accessToken (googleClient w),
             refresh_token = g_refreshToken (googleClient w),
             expiry_date = g_expiryDate (googleClient w)\<rparr>\<rparr>\<rparr>"

definition google_exchangeCodeForTokens ::
  "int \<Rightarrow> token_json response \<Rightarrow> world \<Rightarrow> (error + unit) \<times> world" where
  "google_exchangeCodeForTokens now resp w =
     (let w1 = emit (Token_request Google) w in
      case resp of
        Threw \<Rightarrow> (Inl Fetch_threw, w1)
      | Not_ok \<Rightarrow> (Inl Token_exchange_failed, w1)
      | Ok_json tokens \<Rightarrow>
          let c = googleClient w1;
              c' = c\<lparr>g_accessToken := resp_access_token tokens,
                     g_refreshToken := str_or (resp_refresh_token tokens) (g_refreshToken c),
                     g_expiryDate := now + resp_expires_in tokens * 1000\<rparr>
          in (Inr (), google_persist (w1\<lparr>googleClient := c'\<rparr>)))"

definition google_refreshAccessToken ::
  "int \<Rightarrow> token_json response \<Rightarrow> world \<Rightarrow> (error + unit) \<times> world" where
  "google_refreshAccessToken now resp w =
     (let w0 = emit (Refresh_call Google) w in
      if \<not> truthy (g_refreshToken (googleClient w0)) then (Inr (), w0)
      else
        let w1 = emit (Token_request Google) w0 in
        case resp of
          Threw \<Rightarrow> (Inl Fetch_threw, w1)
        | Not_ok \<Rightarrow> (Inr (), w1)
        | Ok_json tokens \<Rightarrow>
            let c = googleClient w1;
                c' = c\<lparr>g_accessToken := resp_access_token tokens,
                       g_expiryDate := now + resp_expires_in tokens * 1000\<rparr>
            in (Inr (), google_persist (w1\<lparr>googleClient := c'\<rparr>)))"

definition google_getValidAccessToken ::
  "int \<Rightarrow> int \<Rightarrow> token_json response \<Rightarrow> world \<Rightarrow> (error + string) \<times> world" where
  "google_getValidAccessToken now now_r resp w =
     (if now > g_expiryDate (googleClient w) - 60000 then
        (case google_refreshAccessToken now_r resp w of
           (Inl e, w') \<Rightarrow> (Inl e, w')
         | (Inr u, w') \<Rightarrow> (Inr (g_accessToken (googleClient w')), w'))
      else (Inr (g_accessToken (googleClient w)), w))"

text \<open>A raw event of the Google payload, with the optional properties the code reads.\<close>

record google_raw =
  gr_summary :: "string option"
  gr_start_dateTime :: "string option"
  gr_start_date :: "string option"
  gr_end_dateTime :: "string option"
  gr_end_date :: "string option"
  gr_status :: "string option"

definition google_normalize :: "(string \<Rightarrow> date) \<Rightarrow> google_raw list \<Rightarrow> calendar_event list" where
  "google_normalize parse items =
     map (\<lambda>e. \<lparr>summary = str_or (gr_summary e) ''(No title)'',
               ev_start = parse (str_or (gr_start_dateTime e) (str_or (gr_start_date e) [])),
               ev_end = parse (str_or (gr_end_dateTime e) (str_or (gr_end_date e) [])),
               status = str_or (gr_status e) ''confirmed''\<rparr>)
       (filter (\<lambda>e. gr_status e \<noteq> Some ''cancelled'') items)"

definition google_getUpcomingEvents ::
  "int \<Rightarrow> google_raw provider_env \<Rightarrow> world \<Rightarrow> calendar_event list \<times> world" where
  "google_getUpcomingEvents minutesAhead env w =
     (if \<not> google_isConnected (store w) then ([], w)
      else
        case google_getValidAccessToken (now_check env) (now_refresh env) (token_resp env) w of
          (Inl e, w1) \<Rightarrow> ([], w1)
        | (Inr token, w1) \<Rightarrow>
            let now = now_window env;
                later = now + minutesAhead * 60000;
                w2 = emit (Events_request Google token now later) w1
            in case events_resp env of
                 Threw \<Rightarrow> ([], w2)
               | Not_ok \<Rightarrow> ([], w2)
               | Ok_json items \<Rightarrow>
                   (google_normalize (parse_date env) (case items of None \<Rightarrow> [] | Some xs \<Rightarrow> xs),
                    w2))"

subsection \<open>OutlookCalendarClient\<close>

definition outlook_construct :: "app_settings \<Rightarrow> outlook_client" where
  "outlook_construct s =
     (case outlookTokens s of
        None \<Rightarrow> \<lparr>o_accessToken = [], o_refreshToken = [], o_expiresOn = 0\<rparr>
      | Some tokens \<Rightarrow>
          \<lparr>o_accessToken = accessToken tokens, o_refreshToken = refreshToken tokens,
           o_expiresOn = expiresOn tokens\<rparr>)"

definition outlook_isConnected :: "app_settings \<Rightarrow> bool" where
  "outlook_isConnected s =
     (case outlookTokens s of None \<Rightarrow> False | Some tokens \<Rightarrow> truthy (refreshToken tokens))"

definition outlook_persist :: "world \<Rightarrow> world" where
  "outlook_persist w =
     w\<lparr>store := (store w)\<lparr>outlookTokens :=
       Some \<lparr>accessToken = o_accessToken (outlookClient w),
             refreshToken = o_refreshToken (outlookClient w),
             expiresOn = o_expiresOn (outlookClient w)\<rparr>\<rparr>\<rparr>"

definition outlook_exchangeCodeForTokens ::
  "int \<Rightarrow> token_json response \<Rightarrow> world \<Rightarrow> (error + unit) \<times> world" where
  "outlook_exchangeCodeForTokens now resp w =
     (let w1 = emit (Token_request Outlook) w in
      case resp of
        Threw \<Rightarrow> (Inl Fetch_threw, w1)
      | Not_ok \<Rightarrow> (Inl Token_exchange_failed, w1)
      | Ok_json tokens \<Rightarrow>
          let c = outlookClient w1;
              c' = c\<lparr>o_accessToken := resp_access_token tokens,
                     o_refreshToken := str_or (resp_refresh_token tokens) (o_refreshToken c),
                     o_expiresOn := now + resp_expires_in tokens * 1000\<rparr>
          in (Inr (), outlook_persist (w1\<lparr>outlookClient := c'\<rparr>)))"

definition outlook_refreshAccessToken ::
  "int \<Rightarrow> token_json response \<Rightarrow> world \<Rightarrow> (error + unit) \<times> world" where
  "outlook_refreshAccessToken now resp w =
     (let w0 = emit (Refresh_call Outlook) w in
      if \<not> truthy (o_refreshToken (outlookClient w0)) then (Inr (), w0)
      else
        let w1 = emit (Token_request Outlook) w0 in
        case resp of
          Threw \<Rightarrow> (Inl Fetch_threw, w1)
        | Not_ok \<Rightarrow> (Inr (), w1)
        | Ok_json tokens \<Rightarrow>
            let c = outlookClient w1;
                c' = c\<lparr>o_accessToken := resp_access_token tokens,
                       o_refreshToken := str_or (resp_refresh_token tokens) (o_refreshToken c),
                       o_expiresOn := now + resp_expires_in tokens * 1000\<rparr>
            in (Inr (), outlook_persist (w1\<lparr>outlookClient := c'\<rparr>)))"

definition outlook_getValidAccessToken ::
  "int \<Rightarrow> int \<Rightarrow> token_json response \<Rightarrow> world \<Rightarrow> (error + string) \<times> world" where
  "outlook_getValidAccessToken now now_r resp w =
     (if now > o_expiresOn (outlookClient w) - 60000 then
        (case outlook_refreshAccessToken now_r resp w of
           (Inl e, w') \<Rightarrow> (Inl e, w')
         | (Inr u, w') \<Rightarrow> (Inr (o_accessToken (outlookClient w')), w'))
      else (Inr (o_accessToken (outlookClient w)), w))"

text \<open>
  A raw event of the Graph payload. \<open>or_start\<close> and \<open>or_end\<close> hold the \<open>dateTime\<close> string
  of the \<open>start\<close> and \<open>end\<close> objects; \<open>None\<close> is an event without that object, on which
  the property access \<open>e.start.dateTime\<close> throws a TypeError.
\<close>

record outlook_raw =
  or_subject :: "string option"
  or_start :: "string option"
  or_end :: "string option"
  or_showAs :: "string option"

fun outlook_normalize :: "(string \<Rightarrow> date) \<Rightarrow> outlook_raw list \<Rightarrow> error + calendar_event list" where
  "outlook_normalize parse [] = Inr []"
| "outlook_normalize parse (e # es) =
     (case (or_start e, or_end e) of
        (Some s, Some t) \<Rightarrow>
          (case outlook_normalize parse es of
             Inl err \<Rightarrow> Inl err
           | Inr rest \<Rightarrow>
               Inr (\<lparr>summary = str_or (or_subject e) ''(No title)'',
                     ev_start = parse (s @ ''Z''),
                     ev_end = parse (t @ ''Z''),
                     status = str_or (or_showAs e) ''busy''\<rparr> # rest))
      | _ \<Rightarrow> Inl Type_error)"

definition outlook_getUpcomingEvents ::
  "int \<Rightarrow> outlook_raw provider_env \<Rightarrow> world \<Rightarrow> calendar_event list \<times> world" where
  "outlook_getUpcomingEvents minutesAhead env w =
     (if \<not> outlook_isConnected (store w) then ([], w)
      else
        case outlook_getValidAccessToken (now_check env) (now_refresh env) (token_resp env) w of
          (Inl e, w1) \<Rightarrow> ([], w1)
        | (Inr token, w1) \<Rightarrow>
            let now = now_window env;
                later = now + minutesAhead * 60000;
                w2 = emit (Events_request Outlook token now later) w1
            in case events_resp env of
                 Threw \<Rightarrow> ([], w2)
               | Not_ok \<Rightarrow> ([], w2)
               | Ok_json items \<Rightarrow>
                   (case outlook_normalize (parse_date env)
                           (case items of None \<Rightarrow> [] | Some xs \<Rightarrow> xs) of
                      Inl err \<Rightarrow> ([], w2)
                    | Inr evs \<Rightarrow> (evs, w2)))"

subsection \<open>CalendarManager\<close>

definition CACHE_TTL :: int where
  "CACHE_TTL = 5 * 60000"

record fetch_env =
  google_env :: "google_raw provider_env"
  outlook_env :: "outlook_raw provider_env"
  now_fetched :: int

definition fetchEvents :: "fetch_env \<Rightarrow> world \<Rightarrow> world" where
  "fetchEvents env w =
     (let w0 = emit Fetch_cycle w;
          settings = store w0;
          lookAheadMinutes = 120;
          (evs1, w1) =
            (if calendarProviders_google settings \<and> google_isConnected (store w0)
             then google_getUpcomingEvents lookAheadMinutes (google_env env) w0
             else ([], w0));
          (evs2, w2) =
            (if calendarProviders_outlook settings \<and> outlook_isConnected (store w1)
             then outlook_getUpcomingEvents lookAheadMinutes (outlook_env env) w1
             else ([], w1))
      in w2\<lparr>cache := \<lparr>events = evs1 @ evs2, fetchedAt = now_fetched env\<rparr>\<rparr>)"

text \<open>The \<open>for\<close> loop of \<open>isBusyOrMeetingSoon\<close>, with its two skips and two early returns.\<close>

fun scan :: "bool \<Rightarrow> date \<Rightarrow> date \<Rightarrow> calendar_event list \<Rightarrow> bool" where
  "scan block now bufferEnd [] = False"
| "scan block now bufferEnd (event # rest) =
     (if \<not> block \<and> status event = ''tentative'' then scan block now bufferEnd rest
      else if status event = ''free'' then scan block now bufferEnd rest
      else if date_le (ev_start event) now \<and> date_gt (ev_end event) now then True
      else if date_gt (ev_start event) now \<and> date_le (ev_start event) bufferEnd then True
      else scan block now bufferEnd rest)"

record busy_env =
  now_stale :: int
  fetch :: fetch_env
  now_eval :: int

definition isBusyOrMeetingSoon :: "int \<Rightarrow> busy_env \<Rightarrow> world \<Rightarrow> bool \<times> world" where
  "isBusyOrMeetingSoon bufferMinutes env w =
     (let w1 = (if now_stale env - fetchedAt (cache w) > CACHE_TTL
                then fetchEvents (fetch env) w else w);
          settings = store w1;
          now = now_eval env;
          bufferEnd = now + bufferMinutes * 60000
      in (scan (blockOnTentative settings) (Some now) (Some bufferEnd) (events (cache w1)), w1))"

section \<open>The settings handler and the tray manager\<close>

record settings_view =
  v_stretchIntervalMinutes :: int
  v_preMeetingBufferMinutes :: int
  v_snoozeDurationMinutes :: int
  v_calendarProviders :: "bool \<times> bool"
  v_blockOnTentative :: bool
  v_googleClientId :: string
  v_outlookClientId :: string
  v_outlookTenantId :: string
  googleConnected :: bool
  outlookConnected :: bool

text \<open>The \<open>get-settings\<close> handler.\<close>

definition get_settings :: "app_settings \<Rightarrow> settings_view" where
  "get_settings s =
     \<lparr> v_stretchIntervalMinutes = stretchIntervalMinutes s,
       v_preMeetingBufferMinutes = preMeetingBufferMinutes s,
       v_snoozeDurationMinutes = snoozeDurationMinutes s,
       v_calendarProviders = (calendarProviders_google s, calendarProviders_outlook s),
       v_blockOnTentative = blockOnTentative s,
       v_googleClientId = googleClientId s,
       v_outlookClientId = outlookClientId s,
       v_outlookTenantId = outlookTenantId s,
       googleConnected =
         (case googleTokens s of None \<Rightarrow> False | Some tokens \<Rightarrow> truthy (refresh_token tokens)),
       outlookConnected =
         (case outlookTokens s of None \<Rightarrow> False | Some tokens \<Rightarrow> truthy (accessToken tokens)) \<rparr>"

record tray_manager =
  timer :: stretch_timer
  calendarManager :: world

text \<open>
  \<open>onStretchDue\<close> in its two parts. The emitter calls the handler inside \<open>tick\<close>, and the
  handler runs up to its first \<open>await\<close> at once: that is \<open>onStretchDue_sync\<close>. The rest
  runs when the suppression check has answered; it returns whether the notification is
  shown.
\<close>

definition onStretchDue_sync :: "int \<Rightarrow> tray_manager \<Rightarrow> tray_manager" where
  "onStretchDue_sync now tm = tm\<lparr>timer := resetTimer now (timer tm)\<rparr>"

definition onStretchDue_rest :: "busy_env \<Rightarrow> tray_manager \<Rightarrow> bool \<times> tray_manager" where
  "onStretchDue_rest env tm =
     (let settings = store (calendarManager tm);
          (isBusy, w') = isBusyOrMeetingSoon (preMeetingBufferMinutes settings) env (calendarManager tm)
      in (\<not> isBusy, tm\<lparr>calendarManager := w'\<rparr>))"

definition onStretchDue :: "int \<Rightarrow> busy_env \<Rightarrow> tray_manager \<Rightarrow> bool \<times> tray_manager" where
  "onStretchDue now env tm = onStretchDue_rest env (onStretchDue_sync now tm)"

text \<open>
  The state at start-up, from the field initialisers and the constructors: the clients
  seed their fields from the persisted tokens, the cache is empty with fetched-at zero,
  and the timer starts unpaused and not snoozed at the instant it is created.
\<close>

definition world_init :: "app_settings \<Rightarrow> world" where
  "world_init s =
     \<lparr> store = s,
       googleClient = google_construct s,
       outlookClient = outlook_construct s,
       cache = \<lparr>events = [], fetchedAt = 0\<rparr>,
       trace = [] \<rparr>"

definition timer_init :: "int \<Rightarrow> stretch_timer" where
  "timer_init now =
     \<lparr>intervalHandle = False, lastStretchTime = now, paused = False, snoozedUntil = 0\<rparr>"

definition tray_init :: "int \<Rightarrow> app_settings \<Rightarrow> tray_manager" where
  "tray_init now s = \<lparr>timer = timer_init now, calendarManager = world_init s\<rparr>"

text \<open>The effects a call added to the log.\<close>

definition new_effects :: "world \<Rightarrow> world \<Rightarrow> effect list" where
  "new_effects w w' = drop (length (trace w)) (trace w')"

section \<open>The PKCE authenticator\<close>

text \<open>
  \<open>authenticate\<close> of both clients: the same code but for the port, the client identifier
  it reads and the texts. A client object has one field \<open>authServer\<close>, shared by all its
  calls of \<open>authenticate\<close>; what belongs to one call (the \<open>settled\<close> flag, the timer, the
  promise) lives in the closure of that call. Calls are numbered in the order they are
  made, and the listener a call creates bears the number of the call. \<open>listening\<close> holds
  the listeners that were created and not closed. The counters \<open>closes\<close>, \<open>clears\<close> and
  \<open>settlements\<close> of a call count the calls of \<open>close\<close>, \<open>clearTimeout\<close> and of
  \<open>resolve\<close> or \<open>reject\<close> made by its \<open>cleanup\<close> and \<open>done\<close>.
\<close>

datatype auth_outcome =
    Resolved
  | Rejected_exchange
  | Rejected_provider string
  | Rejected_timeout
  | Rejected_listener

datatype auth_event =
    Listening
  | Redirect_code
  | Redirect_error string
  | Request_other
  | Exchange_ok
  | Exchange_failed
  | Listener_error
  | Timeout

record auth_call =
  settled :: bool
  timer_armed :: bool
  outcome :: "auth_outcome option"
  closes :: nat
  clears :: nat
  settlements :: nat
  in_flight :: nat
  browser_opened :: bool

record auth_client =
  authServer :: "nat option"
  listening :: "nat list"
  calls :: "auth_call list"

text \<open>A new client: the field is null and no call was made.\<close>

definition client_init :: auth_client where
  "client_init = \<lparr>authServer = None, listening = [], calls = []\<rparr>"

definition upd_call :: "nat \<Rightarrow> (auth_call \<Rightarrow> auth_call) \<Rightarrow> auth_client \<Rightarrow> auth_client" where
  "upd_call n g c = c\<lparr>calls := (calls c)[n := g (calls c ! n)]\<rparr>"

text \<open>
  \<open>cleanup\<close> of call \<open>n\<close>: it closes the listener the shared field holds at that moment,
  whichever call created it, and nulls the field; then it clears the timer of call \<open>n\<close>.
\<close>

definition cleanup :: "nat \<Rightarrow> auth_client \<Rightarrow> auth_client" where
  "cleanup n c =
     (let c1 = (case authServer c of
                  Some l \<Rightarrow>
                    upd_call n (\<lambda>k. k\<lparr>closes := closes k + 1\<rparr>)
                      (c\<lparr>listening := removeAll l (listening c), authServer := None\<rparr>)
                | None \<Rightarrow> c)
      in upd_call n (\<lambda>k. k\<lparr>timer_armed := False, clears := clears k + 1\<rparr>) c1)"

definition done_fn :: "nat \<Rightarrow> auth_outcome \<Rightarrow> auth_client \<Rightarrow> auth_client" where
  "done_fn n fn c =
     (if settled (calls c ! n) then c
      else
        let c1 = cleanup n (upd_call n (\<lambda>k. k\<lparr>settled := True\<rparr>) c)
        in upd_call n (\<lambda>k. k\<lparr>outcome := Some fn, settlements := settlements k + 1\<rparr>) c1)"

text \<open>
  The start of a call. Without a client identifier the call throws and nothing is
  touched. Otherwise a listener still held by the field (that of an earlier call not
  yet settled) is closed and the field nulled; then the call creates its listener,
  stores it in the field and arms its timer. The result is the number of the new call.
\<close>

definition authenticate ::
  "provider \<Rightarrow> app_settings \<Rightarrow> auth_client \<Rightarrow> (error + nat) \<times> auth_client" where
  "authenticate p s c =
     (let CLIENT_ID = (case p of Google \<Rightarrow> googleClientId s | Outlook \<Rightarrow> outlookClientId s)
      in if \<not> truthy CLIENT_ID then (Inl Client_id_not_configured, c)
         else
           let c1 = (case authServer c of
                       Some l \<Rightarrow> c\<lparr>listening := removeAll l (listening c), authServer := None\<rparr>
                     | None \<Rightarrow> c);
               n = length (calls c1)
           in (Inr n,
               c1\<lparr>authServer := Some n, listening := n # listening c1,
                  calls := calls c1 @
                    [\<lparr>settled = False, timer_armed = True, outcome = None, closes = 0,
                      clears = 0, settlements = 0, in_flight = 0, browser_opened = False\<rparr>]\<rparr>))"

text \<open>
  What can happen to call \<open>n\<close>: its listener starts listening, a request arrives at its
  handler (with a code, with an error, with neither), an exchange it started completes,
  its listener reports an error, its timer fires. A cleared timer does not fire and a
  timer fires once; an exchange completes only if one was started.
\<close>

fun call_step :: "auth_event \<Rightarrow> nat \<Rightarrow> auth_client \<Rightarrow> auth_client" where
  "call_step Listening n c = upd_call n (\<lambda>k. k\<lparr>browser_opened := True\<rparr>) c"
| "call_step Redirect_code n c = upd_call n (\<lambda>k. k\<lparr>in_flight := in_flight k + 1\<rparr>) c"
| "call_step (Redirect_error e) n c = done_fn n (Rejected_provider e) c"
| "call_step Request_other n c = c"
| "call_step Exchange_ok n c =
     (if in_flight (calls c ! n) = 0 then c
      else done_fn n Resolved (upd_call n (\<lambda>k. k\<lparr>in_flight := in_flight k - 1\<rparr>) c))"
| "call_step Exchange_failed n c =
     (if in_flight (calls c ! n) = 0 then c
      else done_fn n Rejected_exchange (upd_call n (\<lambda>k. k\<lparr>in_flight := in_flight k - 1\<rparr>) c))"
| "call_step Listener_error n c = done_fn n Rejected_listener c"
| "call_step Timeout n c =
     (if timer_armed (calls c ! n)
      then done_fn n Rejected_timeout (upd_call n (\<lambda>k. k\<lparr>timer_armed := False\<rparr>) c)
      else c)"

text \<open>An event names the call it belongs to; an event of a call never made is nothing.\<close>

definition auth_step :: "nat \<times> auth_event \<Rightarrow> auth_client \<Rightarrow> auth_client" where
  "auth_step x c = (if fst x < length (calls c) then call_step (snd x) (fst x) c else c)"

fun run :: "(nat \<times> auth_event) list \<Rightarrow> auth_client \<Rightarrow> auth_client" where
  "run [] c = c"
| "run (x # xs) c = run xs (auth_step x c)"









section \<open>Auxiliary definitions for the fetch cycle\<close>

text \<open>
  What each provider contributes to a cycle, computed on the state at its start; the
  states between the parts of a cycle; and when a provider's fetch counts as failed.
\<close>

definition google_contribution :: "fetch_env \<Rightarrow> world \<Rightarrow> calendar_event list" where
  "google_contribution env w =
     (if calendarProviders_google (store w) \<and> google_isConnected (store w)
      then fst (google_getUpcomingEvents 120 (google_env env) w) else [])"

definition outlook_contribution :: "fetch_env \<Rightarrow> world \<Rightarrow> calendar_event list" where
  "outlook_contribution env w =
     (if calendarProviders_outlook (store w) \<and> outlook_isConnected (store w)
      then fst (outlook_getUpcomingEvents 120 (outlook_env env) w) else [])"

definition after_google :: "fetch_env \<Rightarrow> world \<Rightarrow> world" where
  "after_google env w =
     (if calendarProviders_google (store w) \<and> google_isConnected (store w)
      then snd (google_getUpcomingEvents 120 (google_env env) (emit Fetch_cycle w))
      else emit Fetch_cycle w)"

definition after_outlook :: "fetch_env \<Rightarrow> world \<Rightarrow> world" where
  "after_outlook env w =
     (if calendarProviders_outlook (store w) \<and> outlook_isConnected (store w)
      then snd (outlook_getUpcomingEvents 120 (outlook_env env) (after_google env w))
      else after_google env w)"

definition google_fetch_fails :: "google_raw provider_env \<Rightarrow> world \<Rightarrow> bool" where
  "google_fetch_fails env w \<longleftrightarrow>
     events_resp env = Threw \<or> events_resp env = Not_ok \<or>
     (now_check env > g_expiryDate (googleClient w) - 60000 \<and>
      truthy (g_refreshToken (googleClient w)) \<and> token_resp env = Threw)"

definition outlook_fetch_fails :: "outlook_raw provider_env \<Rightarrow> world \<Rightarrow> bool" where
  "outlook_fetch_fails env w \<longleftrightarrow>
     events_resp env = Threw \<or> events_resp env = Not_ok \<or>
     (now_check env > o_expiresOn (outlookClient w) - 60000 \<and>
      truthy (o_refreshToken (outlookClient w)) \<and> token_resp env = Threw)"

section \<open>Example inputs\<close>

text \<open>Concrete environments and states on which the theorems below are evaluated.\<close>

definition ex_provider_env :: "'raw provider_env" where
  "ex_provider_env =
     \<lparr> now_check = 0, token_resp = Threw, now_refresh = 0, now_window = 0,
       events_resp = Threw, parse_date = (\<lambda>s. None) \<rparr>"

definition ex_busy_env :: "int \<Rightarrow> busy_env" where
  "ex_busy_env now =
     \<lparr> now_stale = now,
       fetch = \<lparr>google_env = ex_provider_env, outlook_env = ex_provider_env, now_fetched = now\<rparr>,
       now_eval = now \<rparr>"

definition ex_meeting :: "string \<Rightarrow> int \<Rightarrow> int \<Rightarrow> calendar_event" where
  "ex_meeting st a b = \<lparr>summary = ''Review'', ev_start = Some a, ev_end = Some b, status = st\<rparr>"

definition ex_world :: "calendar_event list \<Rightarrow> world" where
  "ex_world evs = (world_init defaults)\<lparr>cache := \<lparr>events = evs, fetchedAt = 0\<rparr>\<rparr>"

definition ex_google_store :: app_settings where
  "ex_google_store =
     defaults\<lparr>googleTokens :=
       Some \<lparr>access_token = ''old'', refresh_token = ''rt'', expiry_date = 100000\<rparr>\<rparr>"

definition ex_token_json :: token_json where
  "ex_token_json =
     \<lparr>resp_access_token = ''new'', resp_refresh_token = None, resp_expires_in = 3600\<rparr>"

text \<open>Both providers enabled and connected; Google unreachable, Outlook answering.\<close>

definition ex_both_store :: app_settings where
  "ex_both_store =
     defaults\<lparr>calendarProviders_google := True, calendarProviders_outlook := True,
       googleTokens :=
         Some \<lparr>access_token = ''ga'', refresh_token = ''gr'', expiry_date = 10000000\<rparr>,
       outlookTokens :=
         Some \<lparr>accessToken = ''oa'', refreshToken = ''or'', expiresOn = 10000000\<rparr>\<rparr>"

definition ex_outlook_env :: "outlook_raw provider_env" where
  "ex_outlook_env =
     \<lparr> now_check = 0, token_resp = Threw, now_refresh = 0, now_window = 0,
       events_resp = Ok_json (Some
         [\<lparr>or_subject = Some ''Standup'', or_start = Some ''10:00'', or_end = Some ''10:30'',
           or_showAs = None\<rparr>]),
       parse_date = (\<lambda>s. if s = ''10:00Z'' then Some 600000 else
                           if s = ''10:30Z'' then Some 2400000 else None) \<rparr>"

definition ex_fetch_env :: fetch_env where
  "ex_fetch_env =
     \<lparr>google_env = ex_provider_env, outlook_env = ex_outlook_env, now_fetched = 1000\<rparr>"

section \<open>Properties of the scheduler\<close>

text \<open>
  C3. Every periodic check emits the tick signal first, whether or not the timer is
  paused or snoozed, and emits the stretch-due signal exactly when the timer is not
  paused, the check is not before snoozed-until, and the time since the last reset has
  reached the configured interval.
\<close>

theorem tick_emits:
  "hd (tick now s t) = Tick \<and>
   Tick \<in> set (tick now s t) \<and>
   (Stretch_due \<in> set (tick now s t) \<longleftrightarrow>
      \<not> paused t \<and> \<not> now < snoozedUntil t \<and>
      now - lastStretchTime t \<ge> stretchIntervalMinutes s * 60000) \<and>
   tick now s t =
     (if \<not> paused t \<and> \<not> now < snoozedUntil t \<and>
         now - lastStretchTime t \<ge> stretchIntervalMinutes s * 60000
      then [Tick, Stretch_due] else [Tick])"
  by (simp add: tick_def Let_def)

theorem tick_emits_witness:
  "tick 1800000 defaults
     \<lparr>intervalHandle = True, lastStretchTime = 0, paused = False, snoozedUntil = 0\<rparr>
     = [Tick, Stretch_due] \<and>
   tick 1799999 defaults
     \<lparr>intervalHandle = True, lastStretchTime = 0, paused = False, snoozedUntil = 0\<rparr>
     = [Tick] \<and>
   tick 1800000 defaults
     \<lparr>intervalHandle = True, lastStretchTime = 0, paused = True, snoozedUntil = 0\<rparr>
     = [Tick] \<and>
   tick 1800000 defaults
     \<lparr>intervalHandle = True, lastStretchTime = 0, paused = False, snoozedUntil = 1800001\<rparr>
     = [Tick]"
  using
    tick_emits [of 1800000 defaults
      "\<lparr>intervalHandle = True, lastStretchTime = 0, paused = False, snoozedUntil = 0\<rparr>"]
    tick_emits [of 1799999 defaults
      "\<lparr>intervalHandle = True, lastStretchTime = 0, paused = False, snoozedUntil = 0\<rparr>"]
    tick_emits [of 1800000 defaults
      "\<lparr>intervalHandle = True, lastStretchTime = 0, paused = True, snoozedUntil = 0\<rparr>"]
    tick_emits [of 1800000 defaults
      "\<lparr>intervalHandle = True, lastStretchTime = 0, paused = False, snoozedUntil = 1800001\<rparr>"]
  by (simp add: defaults_def tick_def)

text \<open>
  C4 (amended). The remaining time is the sentinel \<open>-1\<close> whenever the timer is paused;
  when it is not paused and the instant is before snoozed-until it is exactly
  snoozed-until minus now; otherwise it is the larger of zero and the interval minus the
  elapsed time. It is negative only as the paused sentinel. For a timer that is not
  paused, with no reset or snooze call in between, it does not increase from one instant
  to a later one when no snooze ends between the two: both instants after snoozed-until,
  or both before it.
\<close>

theorem getRemainingMs_spec:
  "(paused t \<longrightarrow> getRemainingMs now s t = - 1) \<and>
   (\<not> paused t \<and> now < snoozedUntil t \<longrightarrow>
      getRemainingMs now s t = snoozedUntil t - now) \<and>
   (\<not> paused t \<and> \<not> now < snoozedUntil t \<longrightarrow>
      getRemainingMs now s t =
        max 0 (stretchIntervalMinutes s * 60000 - (now - lastStretchTime t))) \<and>
   (getRemainingMs now s t < 0 \<longrightarrow> paused t \<and> getRemainingMs now s t = - 1) \<and>
   (\<not> paused t \<and> now \<le> now' \<and> (snoozedUntil t \<le> now \<or> now' < snoozedUntil t) \<longrightarrow>
      getRemainingMs now' s t \<le> getRemainingMs now s t)"
  by (auto simp: getRemainingMs_def Let_def)

theorem getRemainingMs_spec_witness:
  "getRemainingMs 1000 defaults
     \<lparr>intervalHandle = True, lastStretchTime = 0, paused = True, snoozedUntil = 0\<rparr> = - 1 \<and>
   getRemainingMs 1000 defaults
     \<lparr>intervalHandle = True, lastStretchTime = 0, paused = False, snoozedUntil = 301000\<rparr>
     = 300000 \<and>
   getRemainingMs 1000 defaults
     \<lparr>intervalHandle = True, lastStretchTime = 0, paused = False, snoozedUntil = 0\<rparr>
     = 1799000 \<and>
   getRemainingMs 2000 defaults
     \<lparr>intervalHandle = True, lastStretchTime = 0, paused = False, snoozedUntil = 0\<rparr>
     \<le> getRemainingMs 1000 defaults
     \<lparr>intervalHandle = True, lastStretchTime = 0, paused = False, snoozedUntil = 0\<rparr>"
  using
    getRemainingMs_spec [of
      "\<lparr>intervalHandle = True, lastStretchTime = 0, paused = True, snoozedUntil = 0\<rparr>"
      1000 defaults 1000]
    getRemainingMs_spec [of
      "\<lparr>intervalHandle = True, lastStretchTime = 0, paused = False, snoozedUntil = 301000\<rparr>"
      1000 defaults 1000]
    getRemainingMs_spec [of
      "\<lparr>intervalHandle = True, lastStretchTime = 0, paused = False, snoozedUntil = 0\<rparr>"
      1000 defaults 2000]
  by (simp add: defaults_def getRemainingMs_def)

text \<open>
  Across the end of a snooze it can increase. A reminder was due at instant 0 and the
  timer was reset; the user snoozed ten seconds later, for the default five minutes.
  One millisecond before the snooze ends 1 ms remains; at its end, with no call in
  between and the timer never paused, 1490000 ms remain.
\<close>

theorem getRemainingMs_rises_when_snooze_ends:
  "\<not> paused (snooze 10000 defaults (resetTimer 0 (timer_init 0))) \<and>
   snoozedUntil (snooze 10000 defaults (resetTimer 0 (timer_init 0))) = 310000 \<and>
   getRemainingMs 309999 defaults (snooze 10000 defaults (resetTimer 0 (timer_init 0))) = 1 \<and>
   getRemainingMs 310000 defaults (snooze 10000 defaults (resetTimer 0 (timer_init 0)))
     = 1490000 \<and>
   \<not> getRemainingMs 310000 defaults (snooze 10000 defaults (resetTimer 0 (timer_init 0)))
     \<le> getRemainingMs 309999 defaults (snooze 10000 defaults (resetTimer 0 (timer_init 0)))"
  by (simp add: getRemainingMs_def snooze_def resetTimer_def timer_init_def defaults_def)

text \<open>
  C10. Snoozing writes only snoozed-until (now plus the configured snooze duration):
  last-reset, the paused flag and the interval handle stay as they were. So when the
  interval had already elapsed at the moment of snoozing, a check of the running timer
  made once snoozed-until has passed emits stretch-due, with no further interval to
  wait. Only \<open>resetTimer\<close>, \<open>resume\<close> and \<open>start\<close> move last-reset; \<open>pause\<close>, \<open>stop\<close>
  and \<open>snooze\<close> keep it.
\<close>

theorem snooze_frame:
  "snoozedUntil (snooze now s t) = now + snoozeDurationMinutes s * 60000 \<and>
   lastStretchTime (snooze now s t) = lastStretchTime t \<and>
   paused (snooze now s t) = paused t \<and>
   intervalHandle (snooze now s t) = intervalHandle t \<and>
   (\<not> paused t \<and> now - lastStretchTime t \<ge> stretchIntervalMinutes s * 60000 \<and>
    now \<le> now' \<and> \<not> now' < snoozedUntil (snooze now s t) \<longrightarrow>
      tick now' s (snooze now s t) = [Tick, Stretch_due]) \<and>
   lastStretchTime (resetTimer now' t) = now' \<and>
   lastStretchTime (resume now' t) = now' \<and>
   lastStretchTime (start now' t) = now' \<and>
   lastStretchTime (pause t) = lastStretchTime t \<and>
   lastStretchTime (stop t) = lastStretchTime t"
  by (simp add: snooze_def tick_def resetTimer_def resume_def start_def pause_def stop_def
      Let_def)

theorem snooze_frame_witness:
  "snooze 1900000 defaults
     \<lparr>intervalHandle = True, lastStretchTime = 0, paused = False, snoozedUntil = 0\<rparr>
     = \<lparr>intervalHandle = True, lastStretchTime = 0, paused = False, snoozedUntil = 2200000\<rparr> \<and>
   tick 2200000 defaults
     (snooze 1900000 defaults
       \<lparr>intervalHandle = True, lastStretchTime = 0, paused = False, snoozedUntil = 0\<rparr>)
     = [Tick, Stretch_due]"
  using
    snooze_frame [of 1900000 defaults
      "\<lparr>intervalHandle = True, lastStretchTime = 0, paused = False, snoozedUntil = 0\<rparr>"
      2200000]
  by (simp add: defaults_def snooze_def tick_def)

section \<open>Properties of the calendar manager\<close>

lemma date_compare:
  "date_le (Some x) (Some y) = (x \<le> y) \<and> date_gt (Some x) (Some y) = (x > y) \<and>
   \<not> date_le None b \<and> \<not> date_le a None \<and> \<not> date_gt None b \<and> \<not> date_gt a None"
  by (simp add: date_le_def date_gt_def split: option.splits)

lemma scan_iff:
  "scan block now bufferEnd evs \<longleftrightarrow>
     (\<exists>e \<in> set evs.
        status e \<noteq> ''free'' \<and> (status e \<noteq> ''tentative'' \<or> block) \<and>
        (date_le (ev_start e) now \<and> date_gt (ev_end e) now \<or>
         date_gt (ev_start e) now \<and> date_le (ev_start e) bufferEnd))"
proof (induction evs)
  case Nil
  show ?case by simp
next
  case (Cons e es)
  show ?case unfolding scan.simps set_simps bex_simps Cons.IH if_bool_eq_conj by blast
qed

lemma fresh_cache_scan:
  "\<not> now_stale env - fetchedAt (cache w) > CACHE_TTL \<Longrightarrow>
     isBusyOrMeetingSoon bufferMinutes env w =
       (scan (blockOnTentative (store w)) (Some (now_eval env))
          (Some (now_eval env + bufferMinutes * 60000)) (events (cache w)), w)"
  by (simp add: isBusyOrMeetingSoon_def Let_def)

text \<open>
  C2. With a fresh cache, \<open>isBusyOrMeetingSoon\<close> answers true exactly when some cached
  event is not free, is not tentative unless tentative events block, and is either in
  progress (start at or before now, end after now) or starts soon (start after now and
  at or before now plus the buffer). The answer depends on the set of cached events
  only, so not on their order. Comparisons with an invalid date are false, as in the
  source.
\<close>

theorem isBusyOrMeetingSoon_fresh:
  assumes fresh: "\<not> now_stale env - fetchedAt (cache w) > CACHE_TTL"
  shows "(fst (isBusyOrMeetingSoon bufferMinutes env w) \<longleftrightarrow>
           (\<exists>e \<in> set (events (cache w)).
              status e \<noteq> ''free'' \<and>
              (status e \<noteq> ''tentative'' \<or> blockOnTentative (store w)) \<and>
              (date_le (ev_start e) (Some (now_eval env)) \<and>
                 date_gt (ev_end e) (Some (now_eval env)) \<or>
               date_gt (ev_start e) (Some (now_eval env)) \<and>
                 date_le (ev_start e) (Some (now_eval env + bufferMinutes * 60000))))) \<and>
         (set evs' = set (events (cache w)) \<longrightarrow>
            fst (isBusyOrMeetingSoon bufferMinutes env (w\<lparr>cache := (cache w)\<lparr>events := evs'\<rparr>\<rparr>)) =
            fst (isBusyOrMeetingSoon bufferMinutes env w))"
proof -
  from fresh have f': "\<not> now_stale env - fetchedAt (cache (w\<lparr>cache := (cache w)\<lparr>events := evs'\<rparr>\<rparr>)) > CACHE_TTL"
    by simp
  show ?thesis
    unfolding fresh_cache_scan [OF fresh] fresh_cache_scan [OF f'] scan_iff
    by simp
qed

theorem isBusyOrMeetingSoon_fresh_witness:
  "fst (isBusyOrMeetingSoon 15 (ex_busy_env 1000) (ex_world [ex_meeting ''confirmed'' 301000 2101000])) \<and>
   \<not> fst (isBusyOrMeetingSoon 2 (ex_busy_env 1000) (ex_world [ex_meeting ''confirmed'' 301000 2101000])) \<and>
   fst (isBusyOrMeetingSoon 15 (ex_busy_env 1000)
     (ex_world [ex_meeting ''free'' 0 2101000, ex_meeting ''busy'' 0 2101000])) =
   fst (isBusyOrMeetingSoon 15 (ex_busy_env 1000)
     (ex_world [ex_meeting ''busy'' 0 2101000, ex_meeting ''free'' 0 2101000]))"
proof -
  have fr: "\<And>evs. \<not> now_stale (ex_busy_env 1000) - fetchedAt (cache (ex_world evs)) > CACHE_TTL"
    by (simp add: ex_busy_env_def ex_world_def CACHE_TTL_def)
  have a: "fst (isBusyOrMeetingSoon 15 (ex_busy_env 1000) (ex_world [ex_meeting ''confirmed'' 301000 2101000]))"
    using isBusyOrMeetingSoon_fresh [where env = "ex_busy_env 1000" and bufferMinutes = 15
        and w = "ex_world [ex_meeting ''confirmed'' 301000 2101000]" and evs' = "[]", OF fr]
    by (simp add: ex_busy_env_def ex_world_def ex_meeting_def date_le_def date_gt_def)
  have b: "\<not> fst (isBusyOrMeetingSoon 2 (ex_busy_env 1000) (ex_world [ex_meeting ''confirmed'' 301000 2101000]))"
    using isBusyOrMeetingSoon_fresh [where env = "ex_busy_env 1000" and bufferMinutes = 2
        and w = "ex_world [ex_meeting ''confirmed'' 301000 2101000]" and evs' = "[]", OF fr]
    by (simp add: ex_busy_env_def ex_world_def ex_meeting_def date_le_def date_gt_def)
  have c: "fst (isBusyOrMeetingSoon 15 (ex_busy_env 1000)
     (ex_world [ex_meeting ''free'' 0 2101000, ex_meeting ''busy'' 0 2101000])) =
   fst (isBusyOrMeetingSoon 15 (ex_busy_env 1000)
     (ex_world [ex_meeting ''busy'' 0 2101000, ex_meeting ''free'' 0 2101000]))"
    using isBusyOrMeetingSoon_fresh [where env = "ex_busy_env 1000" and bufferMinutes = 15
        and w = "ex_world [ex_meeting ''busy'' 0 2101000, ex_meeting ''free'' 0 2101000]"
        and evs' = "[ex_meeting ''free'' 0 2101000, ex_meeting ''busy'' 0 2101000]", OF fr]
    by (simp add: ex_world_def insert_commute)
  from a b c show ?thesis by simp
qed


section \<open>Properties of connectivity\<close>

lemma isConnected_iff:
  "(google_isConnected s \<longleftrightarrow> (\<exists>tokens. googleTokens s = Some tokens \<and> refresh_token tokens \<noteq> [])) \<and>
   (outlook_isConnected s \<longleftrightarrow> (\<exists>tokens. outlookTokens s = Some tokens \<and> refreshToken tokens \<noteq> [])) \<and>
   googleConnected (get_settings s) = google_isConnected s"
  by (simp add: google_isConnected_def outlook_isConnected_def get_settings_def truthy_def
      split: option.splits)

text \<open>
  C1 (defect in the code). The settings handler computes the Outlook status from the
  access token, where \<open>isConnected\<close> and the Google line of the same handler use the
  refresh token. After a code exchange whose answer carries no refresh token, on a
  client that holds none, the persisted Outlook tokens have an access token and an empty
  refresh token: the handler reports connected, \<open>isConnected\<close> says not connected.
\<close>

theorem get_settings_outlook_mismatch:
  "store (snd (outlook_exchangeCodeForTokens 0
      (Ok_json \<lparr>resp_access_token = ''at'', resp_refresh_token = None, resp_expires_in = 3600\<rparr>)
      (world_init defaults))) =
     defaults\<lparr>outlookTokens := Some \<lparr>accessToken = ''at'', refreshToken = [], expiresOn = 3600000\<rparr>\<rparr> \<and>
   outlookConnected (get_settings
     (defaults\<lparr>outlookTokens := Some \<lparr>accessToken = ''at'', refreshToken = [], expiresOn = 3600000\<rparr>\<rparr>)) \<and>
   \<not> outlook_isConnected
     (defaults\<lparr>outlookTokens := Some \<lparr>accessToken = ''at'', refreshToken = [], expiresOn = 3600000\<rparr>\<rparr>)"
  by (simp add: outlook_exchangeCodeForTokens_def world_init_def outlook_construct_def
      defaults_def emit_def outlook_persist_def str_or_def get_settings_def
      outlook_isConnected_def truthy_def Let_def)

section \<open>Properties of the due handler\<close>

text \<open>
  C5. \<open>resetTimer\<close> sets last-reset to now and snoozed-until to zero. The due handler
  calls it before it awaits the suppression check, and the rest of the handler does not
  touch the timer. So while the suppression check is awaited the timer is the reset one,
  and every periodic check made while the time elapsed since that reset is below the
  configured interval emits the tick signal only, never a second stretch-due.
\<close>

theorem onStretchDue_resets_first:
  "resetTimer now t = t\<lparr>lastStretchTime := now, snoozedUntil := 0\<rparr> \<and>
   timer (onStretchDue_sync now tm) = resetTimer now (timer tm) \<and>
   timer (snd (onStretchDue_rest env tm)) = timer tm \<and>
   timer (snd (onStretchDue now env tm)) = resetTimer now (timer tm) \<and>
   (now' - now < stretchIntervalMinutes s * 60000 \<longrightarrow>
      tick now' s (timer (onStretchDue_sync now tm)) = [Tick])"
  by (simp add: resetTimer_def onStretchDue_sync_def onStretchDue_rest_def onStretchDue_def
      tick_def Let_def split_def)

theorem onStretchDue_resets_first_witness:
  "tick 1830000 defaults (timer (onStretchDue_sync 1800000 (tray_init 0 defaults))) = [Tick] \<and>
   tick 3599999 defaults (timer (onStretchDue_sync 1800000 (tray_init 0 defaults))) = [Tick]"
proof -
  note last = conjunct2 [THEN conjunct2, THEN conjunct2, THEN conjunct2]
  from onStretchDue_resets_first [where now = 1800000 and now' = 1830000 and s = defaults
      and tm = "tray_init 0 defaults" and t = "timer_init 0" and env = "ex_busy_env 0",
      THEN last]
  have a: "tick 1830000 defaults (timer (onStretchDue_sync 1800000 (tray_init 0 defaults))) = [Tick]"
    by (simp add: defaults_def)
  from onStretchDue_resets_first [where now = 1800000 and now' = 3599999 and s = defaults
      and tm = "tray_init 0 defaults" and t = "timer_init 0" and env = "ex_busy_env 0",
      THEN last]
  have b: "tick 3599999 defaults (timer (onStretchDue_sync 1800000 (tray_init 0 defaults))) = [Tick]"
    by (simp add: defaults_def)
  from a b show ?thesis by simp
qed

section \<open>Properties of the token lifecycle\<close>

lemma google_not_due:
  "\<not> now > g_expiryDate (googleClient w) - 60000 \<Longrightarrow>
     google_getValidAccessToken now now_r resp w = (Inr (g_accessToken (googleClient w)), w)"
  by (simp add: google_getValidAccessToken_def)

lemma google_due_no_refresh_token:
  "now > g_expiryDate (googleClient w) - 60000 \<Longrightarrow> g_refreshToken (googleClient w) = [] \<Longrightarrow>
     google_getValidAccessToken now now_r resp w =
       (Inr (g_accessToken (googleClient w)), emit (Refresh_call Google) w)"
  by (simp add: google_getValidAccessToken_def google_refreshAccessToken_def emit_def truthy_def
      Let_def)

lemma google_due_not_ok:
  "now > g_expiryDate (googleClient w) - 60000 \<Longrightarrow> g_refreshToken (googleClient w) \<noteq> [] \<Longrightarrow>
     google_getValidAccessToken now now_r Not_ok w =
       (Inr (g_accessToken (googleClient w)),
        emit (Token_request Google) (emit (Refresh_call Google) w))"
  by (simp add: google_getValidAccessToken_def google_refreshAccessToken_def emit_def truthy_def
      Let_def)

lemma google_due_trace:
  "now > g_expiryDate (googleClient w) - 60000 \<Longrightarrow>
     new_effects w (snd (google_getValidAccessToken now now_r resp w)) =
       (if g_refreshToken (googleClient w) = [] then [Refresh_call Google]
        else [Refresh_call Google, Token_request Google])"
  by (simp add: google_getValidAccessToken_def google_refreshAccessToken_def emit_def truthy_def
      new_effects_def google_persist_def Let_def split: response.splits)

lemma outlook_not_due:
  "\<not> now > o_expiresOn (outlookClient w) - 60000 \<Longrightarrow>
     outlook_getValidAccessToken now now_r resp w = (Inr (o_accessToken (outlookClient w)), w)"
  by (simp add: outlook_getValidAccessToken_def)

lemma outlook_due_no_refresh_token:
  "now > o_expiresOn (outlookClient w) - 60000 \<Longrightarrow> o_refreshToken (outlookClient w) = [] \<Longrightarrow>
     outlook_getValidAccessToken now now_r resp w =
       (Inr (o_accessToken (outlookClient w)), emit (Refresh_call Outlook) w)"
  by (simp add: outlook_getValidAccessToken_def outlook_refreshAccessToken_def emit_def truthy_def
      Let_def)

lemma outlook_due_not_ok:
  "now > o_expiresOn (outlookClient w) - 60000 \<Longrightarrow> o_refreshToken (outlookClient w) \<noteq> [] \<Longrightarrow>
     outlook_getValidAccessToken now now_r Not_ok w =
       (Inr (o_accessToken (outlookClient w)),
        emit (Token_request Outlook) (emit (Refresh_call Outlook) w))"
  by (simp add: outlook_getValidAccessToken_def outlook_refreshAccessToken_def emit_def truthy_def
      Let_def)

lemma outlook_due_trace:
  "now > o_expiresOn (outlookClient w) - 60000 \<Longrightarrow>
     new_effects w (snd (outlook_getValidAccessToken now now_r resp w)) =
       (if o_refreshToken (outlookClient w) = [] then [Refresh_call Outlook]
        else [Refresh_call Outlook, Token_request Outlook])"
  by (simp add: outlook_getValidAccessToken_def outlook_refreshAccessToken_def emit_def truthy_def
      new_effects_def outlook_persist_def Let_def split: response.splits)

lemma emit_frame:
  "store (emit e w) = store w \<and> googleClient (emit e w) = googleClient w \<and>
   outlookClient (emit e w) = outlookClient w \<and> cache (emit e w) = cache w \<and>
   trace (emit e w) = trace w @ [e]"
  by (simp add: emit_def)

lemma new_effects_self: "new_effects w w = []"
  by (simp add: new_effects_def)

text \<open>
  C8 (amended). \<open>getValidAccessToken\<close> of either client attempts a refresh exactly when
  now is later than expiry minus 60 seconds, strictly: at the boundary itself it does
  not. When the attempt fails, because the client holds no refresh token (then no
  request is sent) or because the token endpoint answers with a non-success status, the
  access token, refresh token and expiry in memory and the persisted settings are
  unchanged, and the previous access token is returned.
\<close>

theorem getValidAccessToken_refresh:
  "(Refresh_call Google \<in> set (new_effects w (snd (google_getValidAccessToken now now_r resp w)))
      \<longleftrightarrow> now > g_expiryDate (googleClient w) - 60000) \<and>
   (Token_request Google \<in> set (new_effects w (snd (google_getValidAccessToken now now_r resp w)))
      \<longleftrightarrow> now > g_expiryDate (googleClient w) - 60000 \<and> g_refreshToken (googleClient w) \<noteq> []) \<and>
   (resp = Not_ok \<or> g_refreshToken (googleClient w) = [] \<longrightarrow>
      fst (google_getValidAccessToken now now_r resp w) = Inr (g_accessToken (googleClient w)) \<and>
      googleClient (snd (google_getValidAccessToken now now_r resp w)) = googleClient w \<and>
      store (snd (google_getValidAccessToken now now_r resp w)) = store w) \<and>
   (Refresh_call Outlook \<in> set (new_effects w (snd (outlook_getValidAccessToken now now_r resp w)))
      \<longleftrightarrow> now > o_expiresOn (outlookClient w) - 60000) \<and>
   (Token_request Outlook \<in> set (new_effects w (snd (outlook_getValidAccessToken now now_r resp w)))
      \<longleftrightarrow> now > o_expiresOn (outlookClient w) - 60000 \<and> o_refreshToken (outlookClient w) \<noteq> []) \<and>
   (resp = Not_ok \<or> o_refreshToken (outlookClient w) = [] \<longrightarrow>
      fst (outlook_getValidAccessToken now now_r resp w) = Inr (o_accessToken (outlookClient w)) \<and>
      outlookClient (snd (outlook_getValidAccessToken now now_r resp w)) = outlookClient w \<and>
      store (snd (outlook_getValidAccessToken now now_r resp w)) = store w)"
proof -
  have g1: "Refresh_call Google \<in> set (new_effects w (snd (google_getValidAccessToken now now_r resp w)))
      \<longleftrightarrow> now > g_expiryDate (googleClient w) - 60000"
    by (cases "now > g_expiryDate (googleClient w) - 60000")
      (simp_all add: google_due_trace google_not_due new_effects_self)
  have g2: "Token_request Google \<in> set (new_effects w (snd (google_getValidAccessToken now now_r resp w)))
      \<longleftrightarrow> now > g_expiryDate (googleClient w) - 60000 \<and> g_refreshToken (googleClient w) \<noteq> []"
    by (cases "now > g_expiryDate (googleClient w) - 60000")
      (simp_all add: google_due_trace google_not_due new_effects_self)
  have g3: "resp = Not_ok \<or> g_refreshToken (googleClient w) = [] \<longrightarrow>
      fst (google_getValidAccessToken now now_r resp w) = Inr (g_accessToken (googleClient w)) \<and>
      googleClient (snd (google_getValidAccessToken now now_r resp w)) = googleClient w \<and>
      store (snd (google_getValidAccessToken now now_r resp w)) = store w"
    by (cases "now > g_expiryDate (googleClient w) - 60000";
        cases "g_refreshToken (googleClient w) = []")
      (auto simp: google_due_no_refresh_token google_due_not_ok google_not_due emit_frame)
  have o1: "Refresh_call Outlook \<in> set (new_effects w (snd (outlook_getValidAccessToken now now_r resp w)))
      \<longleftrightarrow> now > o_expiresOn (outlookClient w) - 60000"
    by (cases "now > o_expiresOn (outlookClient w) - 60000")
      (simp_all add: outlook_due_trace outlook_not_due new_effects_self)
  have o2: "Token_request Outlook \<in> set (new_effects w (snd (outlook_getValidAccessToken now now_r resp w)))
      \<longleftrightarrow> now > o_expiresOn (outlookClient w) - 60000 \<and> o_refreshToken (outlookClient w) \<noteq> []"
    by (cases "now > o_expiresOn (outlookClient w) - 60000")
      (simp_all add: outlook_due_trace outlook_not_due new_effects_self)
  have o3: "resp = Not_ok \<or> o_refreshToken (outlookClient w) = [] \<longrightarrow>
      fst (outlook_getValidAccessToken now now_r resp w) = Inr (o_accessToken (outlookClient w)) \<and>
      outlookClient (snd (outlook_getValidAccessToken now now_r resp w)) = outlookClient w \<and>
      store (snd (outlook_getValidAccessToken now now_r resp w)) = store w"
    by (cases "now > o_expiresOn (outlookClient w) - 60000";
        cases "o_refreshToken (outlookClient w) = []")
      (auto simp: outlook_due_no_refresh_token outlook_due_not_ok outlook_not_due emit_frame)
  from g1 g2 g3 o1 o2 o3 show ?thesis by blast
qed

theorem getValidAccessToken_refresh_witness:
  "fst (google_getValidAccessToken 40001 40002 Not_ok (world_init ex_google_store)) = Inr ''old'' \<and>
   googleClient (snd (google_getValidAccessToken 40001 40002 Not_ok (world_init ex_google_store)))
     = \<lparr>g_accessToken = ''old'', g_refreshToken = ''rt'', g_expiryDate = 100000\<rparr> \<and>
   store (snd (google_getValidAccessToken 40001 40002 Not_ok (world_init ex_google_store)))
     = ex_google_store \<and>
   Refresh_call Google \<in> set (new_effects (world_init ex_google_store)
     (snd (google_getValidAccessToken 40001 40002 Not_ok (world_init ex_google_store))))"
  using getValidAccessToken_refresh [where now = 40001 and now_r = 40002 and resp = Not_ok
      and w = "world_init ex_google_store"]
  by (simp add: world_init_def ex_google_store_def google_construct_def)

text \<open>
  At the boundary, now equal to expiry minus 60 seconds, nothing is attempted: the old
  token is returned and the state, log included, is the one before the call.
\<close>

theorem getValidAccessToken_boundary:
  "google_getValidAccessToken 40000 40001 (Ok_json ex_token_json) (world_init ex_google_store)
     = (Inr ''old'', world_init ex_google_store) \<and>
   g_expiryDate (googleClient (world_init ex_google_store)) - 60000 = 40000"
  by (simp add: google_getValidAccessToken_def world_init_def ex_google_store_def
      google_construct_def)


section \<open>Properties of the fetch cycle\<close>

lemmas google_defs =
  google_getUpcomingEvents_def google_getValidAccessToken_def google_refreshAccessToken_def
  google_persist_def emit_def Let_def

lemmas outlook_defs =
  outlook_getUpcomingEvents_def outlook_getValidAccessToken_def outlook_refreshAccessToken_def
  outlook_persist_def emit_def Let_def

lemma google_frame:
  "outlookClient (snd (google_getUpcomingEvents m env w)) = outlookClient w \<and>
   cache (snd (google_getUpcomingEvents m env w)) = cache w"
  by (simp add: google_defs split: response.splits)

lemma google_trace:
  "\<exists>xs. trace (snd (google_getUpcomingEvents m env w)) = trace w @ xs \<and> Fetch_cycle \<notin> set xs"
  by (simp add: google_defs split: response.splits)

lemma google_cong:
  "googleClient w = googleClient w' \<Longrightarrow> googleTokens (store w) = googleTokens (store w') \<Longrightarrow>
     fst (google_getUpcomingEvents m env w) = fst (google_getUpcomingEvents m env w')"
  by (simp add: google_defs google_isConnected_def split: response.splits)

lemma outlook_frame:
  "googleClient (snd (outlook_getUpcomingEvents m env w)) = googleClient w \<and>
   cache (snd (outlook_getUpcomingEvents m env w)) = cache w"
  by (simp add: outlook_defs split: response.splits sum.splits)

lemma outlook_trace:
  "\<exists>xs. trace (snd (outlook_getUpcomingEvents m env w)) = trace w @ xs \<and> Fetch_cycle \<notin> set xs"
  by (simp add: outlook_defs split: response.splits sum.splits)

lemma outlook_cong:
  "outlookClient w = outlookClient w' \<Longrightarrow> outlookTokens (store w) = outlookTokens (store w') \<Longrightarrow>
     fst (outlook_getUpcomingEvents m env w) = fst (outlook_getUpcomingEvents m env w')"
  by (simp add: outlook_defs outlook_isConnected_def split: response.splits sum.splits)

lemma google_store:
  "outlookTokens (store (snd (google_getUpcomingEvents m env w))) = outlookTokens (store w) \<and>
   blockOnTentative (store (snd (google_getUpcomingEvents m env w))) = blockOnTentative (store w)"
  by (simp add: google_defs split: response.splits)

lemma outlook_store:
  "blockOnTentative (store (snd (outlook_getUpcomingEvents m env w))) = blockOnTentative (store w)"
  by (simp add: outlook_defs split: response.splits sum.splits)

lemma after_google_frame:
  "outlookClient (after_google env w) = outlookClient w \<and>
   outlookTokens (store (after_google env w)) = outlookTokens (store w) \<and>
   blockOnTentative (store (after_google env w)) = blockOnTentative (store w) \<and>
   cache (after_google env w) = cache w"
  by (simp add: after_google_def google_frame google_store emit_def)

lemma after_google_trace:
  "\<exists>xs. trace (after_google env w) = trace w @ Fetch_cycle # xs \<and> Fetch_cycle \<notin> set xs"
proof (cases "calendarProviders_google (store w) \<and> google_isConnected (store w)")
  case True
  from google_trace [of 120 "google_env env" "emit Fetch_cycle w"]
  obtain xs where "trace (snd (google_getUpcomingEvents 120 (google_env env) (emit Fetch_cycle w)))
      = trace (emit Fetch_cycle w) @ xs" and "Fetch_cycle \<notin> set xs"
    by blast
  then show ?thesis unfolding after_google_def if_P [OF True] by (simp add: emit_def)
next
  case False
  show ?thesis unfolding after_google_def if_not_P [OF False] by (simp add: emit_def)
qed

lemma after_outlook_trace:
  "\<exists>xs. trace (after_outlook env w) = trace w @ Fetch_cycle # xs \<and> Fetch_cycle \<notin> set xs"
proof -
  from after_google_trace [of env w]
  obtain xs where g: "trace (after_google env w) = trace w @ Fetch_cycle # xs"
    and gx: "Fetch_cycle \<notin> set xs"
    by blast
  show ?thesis
  proof (cases "calendarProviders_outlook (store w) \<and> outlook_isConnected (store w)")
    case True
    from outlook_trace [of 120 "outlook_env env" "after_google env w"]
    obtain ys where "trace (snd (outlook_getUpcomingEvents 120 (outlook_env env) (after_google env w)))
        = trace (after_google env w) @ ys" and "Fetch_cycle \<notin> set ys"
      by blast
    with g gx show ?thesis unfolding after_outlook_def if_P [OF True] by simp
  next
    case False
    from g gx show ?thesis unfolding after_outlook_def if_not_P [OF False] by simp
  qed
qed

lemma fetchEvents_eq:
  "fetchEvents env w =
     (after_outlook env w)\<lparr>cache :=
        \<lparr>events = google_contribution env w @ outlook_contribution env w,
         fetchedAt = now_fetched env\<rparr>\<rparr>"
proof -
  have s0: "store (emit Fetch_cycle w) = store w" by (simp add: emit_def)
  have g: "fst (google_getUpcomingEvents 120 (google_env env) (emit Fetch_cycle w)) =
           fst (google_getUpcomingEvents 120 (google_env env) w)"
    by (rule google_cong) (simp_all add: emit_def)
  have oc: "outlook_isConnected (store (after_google env w)) = outlook_isConnected (store w)"
    by (simp add: outlook_isConnected_def after_google_frame)
  have o: "fst (outlook_getUpcomingEvents 120 (outlook_env env) (after_google env w)) =
           fst (outlook_getUpcomingEvents 120 (outlook_env env) w)"
    by (rule outlook_cong) (simp_all add: after_google_frame)
  have ag: "(if calendarProviders_google (store w) \<and> google_isConnected (store w)
             then google_getUpcomingEvents 120 (google_env env) (emit Fetch_cycle w)
             else ([], emit Fetch_cycle w)) =
            (google_contribution env w, after_google env w)"
  proof (cases "calendarProviders_google (store w) \<and> google_isConnected (store w)")
    case True
    show ?thesis unfolding google_contribution_def after_google_def if_P [OF True]
      using g by (simp add: prod_eq_iff)
  next
    case False
    show ?thesis unfolding google_contribution_def after_google_def if_not_P [OF False]
      by simp
  qed
  have ao: "(if calendarProviders_outlook (store w) \<and> outlook_isConnected (store (after_google env w))
             then outlook_getUpcomingEvents 120 (outlook_env env) (after_google env w)
             else ([], after_google env w)) =
            (outlook_contribution env w, after_outlook env w)"
  proof (cases "calendarProviders_outlook (store w) \<and> outlook_isConnected (store w)")
    case True
    show ?thesis unfolding oc outlook_contribution_def after_outlook_def if_P [OF True]
      using o by (simp add: prod_eq_iff)
  next
    case False
    show ?thesis unfolding oc outlook_contribution_def after_outlook_def if_not_P [OF False]
      by simp
  qed
  show ?thesis
    by (simp only: fetchEvents_def Let_def s0 ag ao prod.case)
qed

lemma fetchEvents_store:
  "blockOnTentative (store (fetchEvents env w)) = blockOnTentative (store w)"
  by (simp add: fetchEvents_eq after_outlook_def outlook_store after_google_frame)

lemma fetchEvents_count:
  "count_list (new_effects w (fetchEvents env w)) Fetch_cycle = 1"
proof -
  from after_outlook_trace [of env w]
  obtain xs where "trace (after_outlook env w) = trace w @ Fetch_cycle # xs"
    and "Fetch_cycle \<notin> set xs"
    by blast
  then show ?thesis by (simp add: fetchEvents_eq new_effects_def)
qed

lemma contribution_cache:
  "google_contribution env (w\<lparr>cache := c\<rparr>) = google_contribution env w \<and>
   outlook_contribution env (w\<lparr>cache := c\<rparr>) = outlook_contribution env w"
proof -
  have "fst (google_getUpcomingEvents 120 (google_env env) (w\<lparr>cache := c\<rparr>)) =
        fst (google_getUpcomingEvents 120 (google_env env) w)"
    by (rule google_cong) simp_all
  moreover have "fst (outlook_getUpcomingEvents 120 (outlook_env env) (w\<lparr>cache := c\<rparr>)) =
        fst (outlook_getUpcomingEvents 120 (outlook_env env) w)"
    by (rule outlook_cong) simp_all
  ultimately show ?thesis by (simp add: google_contribution_def outlook_contribution_def)
qed

lemma google_fails_empty:
  "google_fetch_fails env w \<Longrightarrow> fst (google_getUpcomingEvents m env w) = []"
  by (auto simp: google_fetch_fails_def google_defs split: response.splits)

lemma outlook_fails_empty:
  "outlook_fetch_fails env w \<Longrightarrow> fst (outlook_getUpcomingEvents m env w) = []"
  by (auto simp: outlook_fetch_fails_def outlook_defs split: response.splits sum.splits)

lemma google_ok_events:
  "google_isConnected (store w) \<Longrightarrow> \<not> now_check env > g_expiryDate (googleClient w) - 60000 \<Longrightarrow>
   events_resp env = Ok_json (Some items) \<Longrightarrow>
     fst (google_getUpcomingEvents m env w) = google_normalize (parse_date env) items"
  by (simp add: google_defs)

lemma outlook_ok_events:
  "outlook_isConnected (store w) \<Longrightarrow> \<not> now_check env > o_expiresOn (outlookClient w) - 60000 \<Longrightarrow>
   events_resp env = Ok_json (Some items) \<Longrightarrow> outlook_normalize (parse_date env) items = Inr evs \<Longrightarrow>
     fst (outlook_getUpcomingEvents m env w) = evs"
  by (simp add: outlook_defs)

text \<open>
  C7. A fetch cycle replaces the cache by the events Google contributed followed by the
  events Outlook contributed, stamped with the instant read at the end of the cycle. A
  provider that is disabled or not connected contributes nothing. A provider whose
  fetch fails (the events request throws or answers with a non-success status, or the
  token refresh before it throws) contributes nothing either, and then the cache holds
  exactly what the other provider contributed; a provider that is enabled and connected,
  holds a token not yet due and gets an answer contributes the normalised events of
  that answer.
\<close>

theorem fetchEvents_republishes:
  "cache (fetchEvents env w) =
     \<lparr>events = google_contribution env w @ outlook_contribution env w,
      fetchedAt = now_fetched env\<rparr> \<and>
   (\<not> calendarProviders_google (store w) \<or> \<not> google_isConnected (store w) \<longrightarrow>
      google_contribution env w = []) \<and>
   (\<not> calendarProviders_outlook (store w) \<or> \<not> outlook_isConnected (store w) \<longrightarrow>
      outlook_contribution env w = []) \<and>
   (google_fetch_fails (google_env env) w \<longrightarrow>
      google_contribution env w = [] \<and>
      events (cache (fetchEvents env w)) = outlook_contribution env w) \<and>
   (outlook_fetch_fails (outlook_env env) w \<longrightarrow>
      outlook_contribution env w = [] \<and>
      events (cache (fetchEvents env w)) = google_contribution env w) \<and>
   (calendarProviders_google (store w) \<and> google_isConnected (store w) \<and>
    \<not> now_check (google_env env) > g_expiryDate (googleClient w) - 60000 \<and>
    events_resp (google_env env) = Ok_json (Some gitems) \<longrightarrow>
      google_contribution env w = google_normalize (parse_date (google_env env)) gitems) \<and>
   (calendarProviders_outlook (store w) \<and> outlook_isConnected (store w) \<and>
    \<not> now_check (outlook_env env) > o_expiresOn (outlookClient w) - 60000 \<and>
    events_resp (outlook_env env) = Ok_json (Some oitems) \<and>
    outlook_normalize (parse_date (outlook_env env)) oitems = Inr oevs \<longrightarrow>
      outlook_contribution env w = oevs)"
proof -
  have c: "cache (fetchEvents env w) =
     \<lparr>events = google_contribution env w @ outlook_contribution env w,
      fetchedAt = now_fetched env\<rparr>"
    by (simp add: fetchEvents_eq)
  have gd: "\<not> calendarProviders_google (store w) \<or> \<not> google_isConnected (store w) \<longrightarrow>
      google_contribution env w = []"
    by (auto simp: google_contribution_def)
  have od: "\<not> calendarProviders_outlook (store w) \<or> \<not> outlook_isConnected (store w) \<longrightarrow>
      outlook_contribution env w = []"
    by (auto simp: outlook_contribution_def)
  have gf: "google_fetch_fails (google_env env) w \<longrightarrow> google_contribution env w = []"
    by (simp add: google_contribution_def google_fails_empty)
  have f: "outlook_fetch_fails (outlook_env env) w \<longrightarrow> outlook_contribution env w = []"
    by (simp add: outlook_contribution_def outlook_fails_empty)
  have gs: "calendarProviders_google (store w) \<and> google_isConnected (store w) \<and>
    \<not> now_check (google_env env) > g_expiryDate (googleClient w) - 60000 \<and>
    events_resp (google_env env) = Ok_json (Some gitems) \<longrightarrow>
      google_contribution env w = google_normalize (parse_date (google_env env)) gitems"
    by (simp add: google_contribution_def google_ok_events)
  have os: "calendarProviders_outlook (store w) \<and> outlook_isConnected (store w) \<and>
    \<not> now_check (outlook_env env) > o_expiresOn (outlookClient w) - 60000 \<and>
    events_resp (outlook_env env) = Ok_json (Some oitems) \<and>
    outlook_normalize (parse_date (outlook_env env)) oitems = Inr oevs \<longrightarrow>
      outlook_contribution env w = oevs"
    by (simp add: outlook_contribution_def outlook_ok_events)
  from c gd od gf f gs os show ?thesis by simp
qed

theorem fetchEvents_republishes_witness:
  "google_fetch_fails (google_env ex_fetch_env) (world_init ex_both_store) \<and>
   cache (fetchEvents ex_fetch_env (world_init ex_both_store)) =
     \<lparr>events = [\<lparr>summary = ''Standup'', ev_start = Some 600000, ev_end = Some 2400000,
                  status = ''busy''\<rparr>],
      fetchedAt = 1000\<rparr> \<and>
   cache (fetchEvents ex_fetch_env (world_init defaults)) = \<lparr>events = [], fetchedAt = 1000\<rparr>"
proof -
  let ?w = "world_init ex_both_store"
  let ?items = "[\<lparr>or_subject = Some ''Standup'', or_start = Some ''10:00'', or_end = Some ''10:30'',
           or_showAs = None\<rparr>]"
  let ?evs = "[\<lparr>summary = ''Standup'', ev_start = Some 600000, ev_end = Some 2400000,
                  status = ''busy''\<rparr>]"
  have gf: "google_fetch_fails (google_env ex_fetch_env) ?w"
    by (simp add: google_fetch_fails_def ex_fetch_env_def ex_provider_env_def)
  have oc: "calendarProviders_outlook (store ?w) \<and> outlook_isConnected (store ?w) \<and>
    \<not> now_check (outlook_env ex_fetch_env) > o_expiresOn (outlookClient ?w) - 60000 \<and>
    events_resp (outlook_env ex_fetch_env) = Ok_json (Some ?items) \<and>
    outlook_normalize (parse_date (outlook_env ex_fetch_env)) ?items = Inr ?evs"
    by (simp add: world_init_def ex_both_store_def outlook_isConnected_def truthy_def
        outlook_construct_def ex_fetch_env_def ex_outlook_env_def str_or_def)
  note t = fetchEvents_republishes [where env = ex_fetch_env and w = ?w and gitems = "[]"
      and oitems = ?items and oevs = ?evs]
  from t gf oc have a: "cache (fetchEvents ex_fetch_env ?w) = \<lparr>events = ?evs, fetchedAt = 1000\<rparr>"
    by (simp add: ex_fetch_env_def)
  have d: "\<not> calendarProviders_google (store (world_init defaults)) \<and>
           \<not> calendarProviders_outlook (store (world_init defaults))"
    by (simp add: world_init_def defaults_def)
  note t' = fetchEvents_republishes [where env = ex_fetch_env and w = "world_init defaults"
      and gitems = "[]" and oitems = "[]" and oevs = "[]"]
  from t' d have b: "cache (fetchEvents ex_fetch_env (world_init defaults)) =
      \<lparr>events = [], fetchedAt = 1000\<rparr>"
    by (simp add: ex_fetch_env_def)
  from gf a b show ?thesis by simp
qed

text \<open>
  C6. When the cache is older than five minutes, \<open>isBusyOrMeetingSoon\<close> runs one fetch
  cycle and then scans the events of that cycle: what the cache held before has no
  influence on the answer. When the cache is not older than that, it runs no cycle,
  changes nothing and scans the cached events.
\<close>

theorem isBusyOrMeetingSoon_stale:
  "(now_stale env - fetchedAt (cache w) > CACHE_TTL \<longrightarrow>
      snd (isBusyOrMeetingSoon b env w) = fetchEvents (fetch env) w \<and>
      count_list (new_effects w (snd (isBusyOrMeetingSoon b env w))) Fetch_cycle = 1 \<and>
      fst (isBusyOrMeetingSoon b env w) =
        scan (blockOnTentative (store w)) (Some (now_eval env))
          (Some (now_eval env + b * 60000))
          (google_contribution (fetch env) w @ outlook_contribution (fetch env) w) \<and>
      fst (isBusyOrMeetingSoon b env (w\<lparr>cache := (cache w)\<lparr>events := prior\<rparr>\<rparr>)) =
        fst (isBusyOrMeetingSoon b env w)) \<and>
   (\<not> now_stale env - fetchedAt (cache w) > CACHE_TTL \<longrightarrow>
      snd (isBusyOrMeetingSoon b env w) = w \<and>
      count_list (new_effects w (snd (isBusyOrMeetingSoon b env w))) Fetch_cycle = 0 \<and>
      fst (isBusyOrMeetingSoon b env w) =
        scan (blockOnTentative (store w)) (Some (now_eval env))
          (Some (now_eval env + b * 60000)) (events (cache w)))"
proof -
  have stale: "now_stale env - fetchedAt (cache w) > CACHE_TTL \<Longrightarrow>
      isBusyOrMeetingSoon b env w =
        (scan (blockOnTentative (store w)) (Some (now_eval env))
           (Some (now_eval env + b * 60000))
           (google_contribution (fetch env) w @ outlook_contribution (fetch env) w),
         fetchEvents (fetch env) w)" for w
    by (simp add: isBusyOrMeetingSoon_def Let_def fetchEvents_store) (simp add: fetchEvents_eq)
  have fresh: "\<not> now_stale env - fetchedAt (cache w) > CACHE_TTL \<Longrightarrow>
      isBusyOrMeetingSoon b env w =
        (scan (blockOnTentative (store w)) (Some (now_eval env))
           (Some (now_eval env + b * 60000)) (events (cache w)), w)"
    by (simp add: isBusyOrMeetingSoon_def Let_def)
  show ?thesis
  proof (cases "now_stale env - fetchedAt (cache w) > CACHE_TTL")
    case True
    then have True': "now_stale env - fetchedAt (cache (w\<lparr>cache := (cache w)\<lparr>events := prior\<rparr>\<rparr>)) > CACHE_TTL"
      by simp
    show ?thesis
      unfolding stale [OF True] stale [OF True']
      using True by (simp add: fetchEvents_count contribution_cache)
  next
    case False
    show ?thesis unfolding fresh [OF False] using False by (simp add: new_effects_def)
  qed
qed

theorem isBusyOrMeetingSoon_stale_witness:
  "\<not> fst (isBusyOrMeetingSoon 15 (ex_busy_env 400000) (ex_world [ex_meeting ''busy'' 0 2101000])) \<and>
   cache (snd (isBusyOrMeetingSoon 15 (ex_busy_env 400000) (ex_world [ex_meeting ''busy'' 0 2101000])))
     = \<lparr>events = [], fetchedAt = 400000\<rparr> \<and>
   fst (isBusyOrMeetingSoon 15 (ex_busy_env 300000) (ex_world [ex_meeting ''busy'' 0 2101000])) \<and>
   snd (isBusyOrMeetingSoon 15 (ex_busy_env 300000) (ex_world [ex_meeting ''busy'' 0 2101000]))
     = ex_world [ex_meeting ''busy'' 0 2101000]"
proof -
  let ?w = "ex_world [ex_meeting ''busy'' 0 2101000]"
  have st: "now_stale (ex_busy_env 400000) - fetchedAt (cache ?w) > CACHE_TTL"
    by (simp add: ex_busy_env_def ex_world_def CACHE_TTL_def)
  have fr: "\<not> now_stale (ex_busy_env 300000) - fetchedAt (cache ?w) > CACHE_TTL"
    by (simp add: ex_busy_env_def ex_world_def CACHE_TTL_def)
  have off: "google_contribution (fetch (ex_busy_env 400000)) ?w = [] \<and>
             outlook_contribution (fetch (ex_busy_env 400000)) ?w = []"
    by (simp add: google_contribution_def outlook_contribution_def ex_world_def world_init_def
        defaults_def)
  note t = isBusyOrMeetingSoon_stale [where env = "ex_busy_env 400000" and w = ?w and b = 15
      and prior = "[]"]
  from t st off have a: "\<not> fst (isBusyOrMeetingSoon 15 (ex_busy_env 400000) ?w) \<and>
      cache (snd (isBusyOrMeetingSoon 15 (ex_busy_env 400000) ?w)) = \<lparr>events = [], fetchedAt = 400000\<rparr>"
    by (simp add: fetchEvents_eq ex_busy_env_def)
  note t' = isBusyOrMeetingSoon_stale [where env = "ex_busy_env 300000" and w = ?w and b = 15
      and prior = "[]"]
  from t' fr have b: "fst (isBusyOrMeetingSoon 15 (ex_busy_env 300000) ?w) \<and>
      snd (isBusyOrMeetingSoon 15 (ex_busy_env 300000) ?w) = ?w"
    by (simp add: ex_busy_env_def ex_world_def ex_meeting_def date_le_def date_gt_def)
  from a b show ?thesis by simp
qed

section \<open>Properties of the authenticator\<close>























text \<open>
  Outside that statement: two calls under way at once on one client, which the caller
  is to prevent. The second call closes the listener of the first; the timer of the
  first then closes the listener of the second, and the \<open>cleanup\<close> of the second finds
  the field null and closes nothing.
\<close>

lemma overlapping_calls:
  "listening (snd (authenticate Outlook defaults (snd (authenticate Outlook defaults client_init))))
     = [Suc 0] \<and>
   listening (auth_step (0, Timeout)
     (snd (authenticate Outlook defaults (snd (authenticate Outlook defaults client_init))))) = [] \<and>
   map closes (calls (run [(0, Timeout), (Suc 0, Timeout)]
     (snd (authenticate Outlook defaults (snd (authenticate Outlook defaults client_init))))))
     = [1, 0] \<and>
   map outcome (calls (run [(0, Timeout), (Suc 0, Timeout)]
     (snd (authenticate Outlook defaults (snd (authenticate Outlook defaults client_init))))))
     = [Some Rejected_timeout, Some Rejected_timeout]"
  by (simp add: authenticate_def defaults_def truthy_def client_init_def auth_step_def
      done_fn_def cleanup_def upd_call_def Let_def)


end
